theory Spec2Isabelle
  imports Complex_Main
begin

section \<open>Python values, exceptions and built-ins\<close>

text \<open>
  A Python string is a sequence of Unicode code points. \<open>lit\<close> gives the string
  of an ASCII literal of the program, such as \<open>'title'\<close>.
\<close>

type_synonym pystr = "nat list"

definition lit :: "string \<Rightarrow> pystr" where
  "lit s = map of_char s"

text \<open>
  The program is dynamically typed: a \<open>Book\<close> holds whatever values it was built from,
  and \<open>json.load\<close> may return any JSON value. \<open>pyval\<close> is the type of these values
  (JSON numbers with a fraction or an exponent are left out: the program never
  computes with them). A \<open>dict\<close> is an association list in insertion order, each
  key once; the dictionaries of the program have string keys.
\<close>

datatype pyval =
    PNone
  | PBool bool
  | PInt int
  | PStr pystr
  | PList "pyval list"
  | PDict "(pystr \<times> pyval) list"

datatype py_error =
    KeyError pystr
  | TypeError
  | AttributeError
  | ValueError
  | EOFError
  | ZeroDivisionError
  | UnicodeDecodeError
  | RecursionError
  | OSError

datatype status = Returned | Raised py_error

text \<open>
  The built-ins whose result depends on the interpreter's Unicode tables and settings
  are parameters of the model, so that what is proved holds whatever they compute:
  \<open>str.lower()\<close>, \<open>str.strip()\<close>, \<open>int(s)\<close> on a string (\<open>None\<close> stands for
  \<open>ValueError\<close>), and \<open>sys.get_int_max_str_digits()\<close>, the limit on the number of
  digits in conversions between \<open>int\<close> and text (0 when there is no limit).
\<close>

record python =
  lower :: "pystr \<Rightarrow> pystr"
  strip :: "pystr \<Rightarrow> pystr"
  py_int :: "pystr \<Rightarrow> int option"
  max_str_digits :: nat

text \<open>\<open>x.lower()\<close> on a value: only \<open>str\<close> has the method.\<close>

fun py_lower :: "python \<Rightarrow> pyval \<Rightarrow> py_error + pystr" where
  "py_lower P (PStr s) = Inr (lower P s)"
| "py_lower P _ = Inl AttributeError"

text \<open>\<open>a in b\<close> on strings: \<open>a\<close> occurs in \<open>b\<close> as a contiguous substring.\<close>

fun py_in :: "pystr \<Rightarrow> pystr \<Rightarrow> bool" where
  "py_in a [] = (a = [])"
| "py_in a (c # cs) = (take (length a) (c # cs) = a \<or> py_in a cs)"

text \<open>
  Converting an integer to text (\<open>str\<close>, \<open>format\<close>, an f-string, \<open>json.dump\<close>) raises
  \<open>ValueError\<close> when it has more digits than the limit. \<open>within_limit\<close> says that a
  value holds no such integer, so that it can be converted. (Values nested deeper than
  the interpreter's recursion limit are not considered.)
\<close>

definition int_str_ok :: "nat \<Rightarrow> int \<Rightarrow> bool" where
  "int_str_ok limit i = (limit = 0 \<or> \<bar>i\<bar> < 10 ^ limit)"

fun within_limit :: "nat \<Rightarrow> pyval \<Rightarrow> bool" where
  "within_limit limit (PInt i) = int_str_ok limit i"
| "within_limit limit (PList xs) = list_all (within_limit limit) xs"
| "within_limit limit (PDict kvs) = list_all (\<lambda>kv. within_limit limit (snd kv)) kvs"
| "within_limit limit PNone = True"
| "within_limit limit (PBool b) = True"
| "within_limit limit (PStr s) = True"

text \<open>Truth value of an object, as \<open>if x\<close> and \<open>sum(1 for ... if x)\<close> test it.\<close>

fun py_bool :: "pyval \<Rightarrow> bool" where
  "py_bool PNone = False"
| "py_bool (PBool b) = b"
| "py_bool (PInt i) = (i \<noteq> 0)"
| "py_bool (PStr s) = (s \<noteq> [])"
| "py_bool (PList xs) = (xs \<noteq> [])"
| "py_bool (PDict kvs) = (kvs \<noteq> [])"

text \<open>\<open>data[key]\<close> with a string key: only a \<open>dict\<close> can be indexed by a string.\<close>

fun py_getitem :: "pyval \<Rightarrow> pystr \<Rightarrow> py_error + pyval" where
  "py_getitem (PDict kvs) k =
     (case map_of kvs k of None \<Rightarrow> Inl (KeyError k) | Some v \<Rightarrow> Inr v)"
| "py_getitem _ k = Inl TypeError"

text \<open>
  \<open>for x in data\<close>: a list gives its elements, a dict its keys, a string its characters;
  nothing else is iterable.
\<close>

fun py_iter :: "pyval \<Rightarrow> py_error + pyval list" where
  "py_iter (PList xs) = Inr xs"
| "py_iter (PDict kvs) = Inr (map (\<lambda>kv. PStr (fst kv)) kvs)"
| "py_iter (PStr s) = Inr (map (\<lambda>c. PStr [c]) s)"
| "py_iter _ = Inl TypeError"

text \<open>\<open>a / b\<close> on integers (the float result is idealised as a real number).\<close>

definition py_truediv :: "int \<Rightarrow> int \<Rightarrow> py_error + real" where
  "py_truediv a b = (if b = 0 then Inl ZeroDivisionError else Inr (real_of_int a / real_of_int b))"

section \<open>class Book\<close>

record Book =
  title :: pyval
  author :: pyval
  year :: pyval
  genre :: pyval
  read :: pyval

definition to_dict :: "Book \<Rightarrow> pyval" where
  "to_dict b =
     PDict [(lit ''title'', title b), (lit ''author'', author b), (lit ''year'', year b),
            (lit ''genre'', genre b), (lit ''read'', read b)]"

definition from_dict :: "pyval \<Rightarrow> py_error + Book" where
  "from_dict data =
     (case py_getitem data (lit ''title'') of Inl e \<Rightarrow> Inl e | Inr t \<Rightarrow>
      (case py_getitem data (lit ''author'') of Inl e \<Rightarrow> Inl e | Inr a \<Rightarrow>
       (case py_getitem data (lit ''year'') of Inl e \<Rightarrow> Inl e | Inr y \<Rightarrow>
        (case py_getitem data (lit ''genre'') of Inl e \<Rightarrow> Inl e | Inr g \<Rightarrow>
         (case py_getitem data (lit ''read'') of Inl e \<Rightarrow> Inl e | Inr r \<Rightarrow>
            Inr \<lparr>title = t, author = a, year = y, genre = g, read = r\<rparr>)))))"

text \<open>\<open>__str__\<close> formats the title, the author, the year and the genre, and only tests
  \<open>read\<close>; it raises \<open>ValueError\<close> when one of the four holds an integer over the limit.\<close>

definition str_ok :: "nat \<Rightarrow> Book \<Rightarrow> bool" where
  "str_ok limit b =
     (within_limit limit (title b) \<and> within_limit limit (author b) \<and>
      within_limit limit (year b) \<and> within_limit limit (genre b))"

text \<open>The declared types of the five fields (\<open>str, str, int, str, bool\<close>).\<close>

fun is_str :: "pyval \<Rightarrow> bool" where
  "is_str (PStr s) = True"
| "is_str _ = False"

fun is_int :: "pyval \<Rightarrow> bool" where
  "is_int (PInt i) = True"
| "is_int _ = False"

fun is_bool :: "pyval \<Rightarrow> bool" where
  "is_bool (PBool b) = True"
| "is_bool _ = False"

definition well_typed :: "Book \<Rightarrow> bool" where
  "well_typed b =
     (is_str (title b) \<and> is_str (author b) \<and> is_int (year b) \<and> is_str (genre b) \<and>
      is_bool (read b))"

definition field_names :: "pystr list" where
  "field_names = [lit ''title'', lit ''author'', lit ''year'', lit ''genre'', lit ''read'']"

section \<open>class LibraryManager\<close>

text \<open>
  What opening the backing file and \<open>json.load\<close> do with it: \<open>JSONDecodeError\<close> (the
  text is not JSON), another exception (\<open>UnicodeDecodeError\<close> on bytes that are not
  text, \<open>ValueError\<close> on an integer over the digit limit, \<open>RecursionError\<close>,
  \<open>OSError\<close>), or the value that \<open>json.load\<close> returns. \<open>json.dump\<close> followed by
  \<open>json.load\<close> gives back the dumped value, so a written file is modelled by the
  value written. \<open>None\<close> is a file that does not exist.
\<close>

datatype file_text = NotJSON | LoadRaises py_error | JSON pyval

text \<open>The outcome of opening and writing the file: done, or \<open>IOError\<close>, which leaves
  the file in some state chosen by the environment.\<close>

datatype io = IoOk | IoError "file_text option"

text \<open>The lines the program prints (headers, colours and animations left out). A line
  that lists books holds the books that were printed.\<close>

datatype msg =
    ErrorLoading
  | ErrorSaving
  | InvalidYear
  | YesOrNo
  | BookAdded
  | NoBookFound
  | MultipleFound "Book list"
  | InvalidChoice
  | InvalidNumber
  | BookRemoved
  | EnterOneOrTwo
  | NoMatching
  | MatchingBooks "Book list"
  | LibraryEmpty
  | Listing "Book list"
  | NoBooks
  | TotalBooks int
  | PercentageRead real
  | BooksByGenre "(pyval \<times> int) list"

text \<open>
  \<open>Book\<close> defines no \<open>__eq__\<close>, so \<open>list.remove\<close> compares objects by identity.
  Each element of \<open>self.books\<close> is therefore an object reference paired with the
  field values; \<open>next_ref\<close> is the next unused reference.
\<close>

record world =
  books :: "(nat \<times> Book) list"
  next_ref :: nat
  json_file :: "file_text option"
  stdin :: "pystr list"
  stdout :: "msg list"

definition print :: "msg list \<Rightarrow> world \<Rightarrow> world" where
  "print ms w = w\<lparr>stdout := stdout w @ ms\<rparr>"

text \<open>A statement that prints after a call: reached only when the call returns.\<close>

definition then_print :: "msg list \<Rightarrow> status \<times> world \<Rightarrow> status \<times> world" where
  "then_print ms r = (case r of (Returned, w) \<Rightarrow> (Returned, print ms w) | (Raised e, w) \<Rightarrow> (Raised e, w))"

text \<open>\<open>for i, book in enumerate(bs, 1): print(f"{i}. {book}")\<close> after a heading: the books
  are printed in order, up to the first whose \<open>__str__\<close> raises.\<close>

definition print_books :: "nat \<Rightarrow> (Book list \<Rightarrow> msg) \<Rightarrow> Book list \<Rightarrow> world \<Rightarrow> status \<times> world" where
  "print_books limit heading bs w =
     (if list_all (str_ok limit) bs then (Returned, print [heading bs] w)
      else (Raised ValueError, print [heading (takeWhile (str_ok limit) bs)] w))"

definition serialize :: "(nat \<times> Book) list \<Rightarrow> pyval" where
  "serialize bs = PList (map (\<lambda>b. to_dict (snd b)) bs)"

fun from_dict_all :: "pyval list \<Rightarrow> py_error + Book list" where
  "from_dict_all [] = Inr []"
| "from_dict_all (d # ds) =
     (case from_dict d of Inl e \<Rightarrow> Inl e | Inr b \<Rightarrow>
      (case from_dict_all ds of Inl e \<Rightarrow> Inl e | Inr bs \<Rightarrow> Inr (b # bs)))"

definition new_objects :: "nat \<Rightarrow> Book list \<Rightarrow> (nat \<times> Book) list" where
  "new_objects r bs = zip [r ..< r + length bs] bs"

text \<open>Only \<open>JSONDecodeError\<close> and \<open>KeyError\<close> are caught.\<close>

definition load_library :: "world \<Rightarrow> status \<times> world" where
  "load_library w =
     (case json_file w of
        None \<Rightarrow> (Returned, w\<lparr>books := []\<rparr>)
      | Some NotJSON \<Rightarrow> (Returned, print [ErrorLoading] w\<lparr>books := []\<rparr>)
      | Some (LoadRaises e) \<Rightarrow>
          (case e of
             KeyError k \<Rightarrow> (Returned, print [ErrorLoading] w\<lparr>books := []\<rparr>)
           | _ \<Rightarrow> (Raised e, w))
      | Some (JSON data) \<Rightarrow>
          (case py_iter data of
             Inl e \<Rightarrow> (Raised e, w)
           | Inr items \<Rightarrow>
               (case from_dict_all items of
                  Inl (KeyError k) \<Rightarrow> (Returned, print [ErrorLoading] w\<lparr>books := []\<rparr>)
                | Inl e \<Rightarrow> (Raised e, w)
                | Inr bs \<Rightarrow>
                    (Returned, w\<lparr>books := new_objects (next_ref w) bs,
                                 next_ref := next_ref w + length bs\<rparr>))))"

text \<open>
  Only \<open>IOError\<close> is caught. When the catalog holds an integer over the digit limit,
  \<open>json.dump\<close> raises \<open>ValueError\<close> after the file has been opened for writing and
  part of the text written: what is left is not JSON.
\<close>

definition save_library :: "python \<Rightarrow> io \<Rightarrow> world \<Rightarrow> status \<times> world" where
  "save_library P env w =
     (case env of
        IoError f \<Rightarrow> (Returned, print [ErrorSaving] (w\<lparr>json_file := f\<rparr>))
      | IoOk \<Rightarrow>
          if within_limit (max_str_digits P) (serialize (books w))
          then (Returned, w\<lparr>json_file := Some (JSON (serialize (books w)))\<rparr>)
          else (Raised ValueError, w\<lparr>json_file := Some NotJSON\<rparr>))"


text \<open>One more printed line in front of what the rest of a prompt loop prints.\<close>

definition after_msg :: "msg \<Rightarrow> 'a \<times> pystr list \<times> msg list \<Rightarrow> 'a \<times> pystr list \<times> msg list" where
  "after_msg m r = (case r of (x, rest, ms) \<Rightarrow> (x, rest, m # ms))"

subsection \<open>add\_book\<close>




subsection \<open>remove\_book\<close>





subsection \<open>search\_books\<close>

fun read_search_choice :: "python \<Rightarrow> pystr list \<Rightarrow> (py_error + int) \<times> pystr list \<times> msg list" where
  "read_search_choice P [] = (Inl EOFError, [], [])"
| "read_search_choice P (l # ls) =
     (case py_int P l of
        None \<Rightarrow> after_msg InvalidNumber (read_search_choice P ls)
      | Some choice \<Rightarrow>
          if choice \<in> set [1, 2] then (Inr choice, ls, [])
          else after_msg EnterOneOrTwo (read_search_choice P ls))"

text \<open>\<open>[book for book in self.books if search_term in book.<field>.lower()]\<close>\<close>

fun search_results ::
  "python \<Rightarrow> (Book \<Rightarrow> pyval) \<Rightarrow> pystr \<Rightarrow> (nat \<times> Book) list \<Rightarrow> py_error + (nat \<times> Book) list" where
  "search_results P field search_term [] = Inr []"
| "search_results P field search_term (b # bs) =
     (case py_lower P (field (snd b)) of
        Inl e \<Rightarrow> Inl e
      | Inr s \<Rightarrow>
          (case search_results P field search_term bs of
             Inl e \<Rightarrow> Inl e
           | Inr results \<Rightarrow> Inr (if py_in search_term s then b # results else results)))"

definition search_books :: "python \<Rightarrow> world \<Rightarrow> status \<times> world" where
  "search_books P w =
     (case read_search_choice P (stdin w) of
        (Inl e, in1, out1) \<Rightarrow> (Raised e, print out1 (w\<lparr>stdin := in1\<rparr>))
      | (Inr choice, in1, out1) \<Rightarrow>
          (case in1 of [] \<Rightarrow> (Raised EOFError, print out1 (w\<lparr>stdin := []\<rparr>)) | l # in2 \<Rightarrow>
           (let search_term = lower P (strip P l);
                w1 = print out1 (w\<lparr>stdin := in2\<rparr>)
            in case search_results P (if choice = 1 then title else author) search_term
                      (books w) of
                 Inl e \<Rightarrow> (Raised e, w1)
               | Inr results \<Rightarrow>
                   if results = [] then (Returned, print [NoMatching] w1)
                   else print_books (max_str_digits P) MatchingBooks (map snd results) w1)))"

subsection \<open>display\_all\_books and display\_statistics\<close>

definition display_all_books :: "python \<Rightarrow> world \<Rightarrow> status \<times> world" where
  "display_all_books P w =
     (if books w = [] then (Returned, print [LibraryEmpty] w)
      else print_books (max_str_digits P) Listing (map snd (books w)) w)"

text \<open>
  The dictionary \<open>genres\<close>: keys in insertion order. A key must be hashable; two keys
  are the same key when they are equal as Python values (\<open>True == 1\<close>, \<open>False == 0\<close>).
\<close>

fun hashable :: "pyval \<Rightarrow> bool" where
  "hashable (PList xs) = False"
| "hashable (PDict kvs) = False"
| "hashable _ = True"

fun py_eq :: "pyval \<Rightarrow> pyval \<Rightarrow> bool" where
  "py_eq (PBool a) (PInt b) = ((if a then 1 else 0) = b)"
| "py_eq (PInt a) (PBool b) = (a = (if b then 1 else 0))"
| "py_eq a b = (a = b)"

fun dict_get :: "(pyval \<times> int) list \<Rightarrow> pyval \<Rightarrow> int \<Rightarrow> int" where
  "dict_get [] k d = d"
| "dict_get (kv # kvs) k d = (if py_eq (fst kv) k then snd kv else dict_get kvs k d)"

fun dict_set :: "(pyval \<times> int) list \<Rightarrow> pyval \<Rightarrow> int \<Rightarrow> (pyval \<times> int) list" where
  "dict_set [] k v = [(k, v)]"
| "dict_set (kv # kvs) k v =
     (if py_eq (fst kv) k then (fst kv, v) # kvs else kv # dict_set kvs k v)"

text \<open>\<open>for book in self.books: genres[book.genre] = genres.get(book.genre, 0) + 1\<close>\<close>

fun count_genres :: "(pyval \<times> int) list \<Rightarrow> (nat \<times> Book) list \<Rightarrow> py_error + (pyval \<times> int) list" where
  "count_genres genres [] = Inr genres"
| "count_genres genres (b # bs) =
     (if hashable (genre (snd b))
      then count_genres (dict_set genres (genre (snd b)) (dict_get genres (genre (snd b)) 0 + 1)) bs
      else Inl TypeError)"

text \<open>\<open>sorted(genres.items(), key=lambda x: x[1], reverse=True)\<close>: a stable sort with
  every comparison reversed, that is a stable sort on the negated count.\<close>

definition sorted_by_count :: "(pyval \<times> int) list \<Rightarrow> (pyval \<times> int) list" where
  "sorted_by_count items = sort_key (\<lambda>x. - snd x) items"

text \<open>
  The genre lines are printed one by one; a genre that holds an integer over the digit
  limit raises \<open>ValueError\<close> when it is formatted. (The total and the counts are
  numbers of records, taken to be below the limit.)
\<close>

definition print_genres :: "nat \<Rightarrow> (pyval \<times> int) list \<Rightarrow> world \<Rightarrow> status \<times> world" where
  "print_genres limit items w =
     (if list_all (\<lambda>x. within_limit limit (fst x)) items
      then (Returned, print [BooksByGenre items] w)
      else (Raised ValueError,
            print [BooksByGenre (takeWhile (\<lambda>x. within_limit limit (fst x)) items)] w))"

definition display_statistics :: "python \<Rightarrow> world \<Rightarrow> status \<times> world" where
  "display_statistics P w =
     (let total_books = int (length (books w)) in
      if total_books = 0 then (Returned, print [NoBooks] w)
      else
        (let read_books = int (length (filter (\<lambda>b. py_bool (read (snd b))) (books w))) in
         case py_truediv read_books total_books of
           Inl e \<Rightarrow> (Raised e, w)
         | Inr q \<Rightarrow>
             (let percentage_read = q * 100;
                  w1 = print [TotalBooks total_books, PercentageRead percentage_read] w
              in case count_genres [] (books w) of
                   Inl e \<Rightarrow> (Raised e, w1)
                 | Inr genres \<Rightarrow> print_genres (max_str_digits P) (sorted_by_count genres) w1)))"


section \<open>Notions used to state the properties\<close>

text \<open>A mapping that has all five keys, and the record made of its five values.\<close>

definition has_all_fields :: "(pystr \<times> pyval) list \<Rightarrow> bool" where
  "has_all_fields d = list_all (\<lambda>k. map_of d k \<noteq> None) field_names"

definition record_of :: "(pystr \<times> pyval) list \<Rightarrow> Book" where
  "record_of d =
     \<lparr>title = the (map_of d (lit ''title'')), author = the (map_of d (lit ''author'')),
      year = the (map_of d (lit ''year'')), genre = the (map_of d (lit ''genre'')),
      read = the (map_of d (lit ''read''))\<rparr>"

text \<open>The text of a string value.\<close>

fun str_of :: "pyval \<Rightarrow> pystr" where
  "str_of (PStr s) = s"
| "str_of _ = []"

text \<open>A catalog of valid Book Records: every record has fields of the declared types.\<close>

definition valid_catalog :: "(nat \<times> Book) list \<Rightarrow> bool" where
  "valid_catalog bs = list_all (\<lambda>b. well_typed (snd b)) bs"

text \<open>A catalog whose integers the interpreter can convert to text: none has more
  digits than the limit.\<close>

definition storable :: "python \<Rightarrow> (nat \<times> Book) list \<Rightarrow> bool" where
  "storable P bs = within_limit (max_str_digits P) (serialize bs)"

text \<open>The records whose title equals \<open>t\<close> when case is ignored (both sides lowered by
  \<open>str.lower()\<close>), in catalog order.\<close>

definition same_title :: "python \<Rightarrow> pystr \<Rightarrow> (nat \<times> Book) list \<Rightarrow> (nat \<times> Book) list" where
  "same_title P t bs = filter (\<lambda>b. lower P (str_of (title (snd b))) = lower P t) bs"






subsection \<open>An interpreter for the examples\<close>

text \<open>
  The built-ins as CPython computes them on strings of ASCII characters, with the
  default limit of 4300 digits. They serve in the examples, which use ASCII text only;
  on other strings they are not meant to describe anything.
\<close>

definition ascii_lower :: "pystr \<Rightarrow> pystr" where
  "ascii_lower s = map (\<lambda>c. if 65 \<le> c \<and> c \<le> 90 then c + 32 else c) s"

definition ascii_isspace :: "nat \<Rightarrow> bool" where
  "ascii_isspace c = (c \<in> set [9, 10, 11, 12, 13, 28, 29, 30, 31, 32])"

definition ascii_strip :: "pystr \<Rightarrow> pystr" where
  "ascii_strip s = rev (dropWhile ascii_isspace (rev (dropWhile ascii_isspace s)))"

text \<open>
  \<open>int(s)\<close>: blanks around are skipped, then an optional sign, then decimal digits,
  single underscores allowed between two digits; more than 4300 digits are refused.
\<close>

definition int_space :: "nat \<Rightarrow> bool" where
  "int_space c = (c \<in> set [9, 10, 11, 12, 13, 32])"

definition digit_val :: "nat \<Rightarrow> nat option" where
  "digit_val c = (if 48 \<le> c \<and> c \<le> 57 then Some (c - 48) else None)"

fun py_digits :: "nat \<Rightarrow> pystr \<Rightarrow> nat option" where
  "py_digits acc [] = Some acc"
| "py_digits acc [c] =
     (case digit_val c of None \<Rightarrow> None | Some v \<Rightarrow> Some (10 * acc + v))"
| "py_digits acc (c # d # ds) =
     (if c = 95
      then (case digit_val d of None \<Rightarrow> None | Some v \<Rightarrow> py_digits (10 * acc + v) ds)
      else (case digit_val c of None \<Rightarrow> None | Some v \<Rightarrow> py_digits (10 * acc + v) (d # ds)))"

definition py_number :: "pystr \<Rightarrow> nat option" where
  "py_number s =
     (if 4300 < length (filter (\<lambda>c. c \<noteq> 95) s) then None
      else (case s of [] \<Rightarrow> None
            | d # ds \<Rightarrow> (case digit_val d of None \<Rightarrow> None | Some v \<Rightarrow> py_digits v ds)))"

definition ascii_int :: "pystr \<Rightarrow> int option" where
  "ascii_int s =
     (case rev (dropWhile int_space (rev (dropWhile int_space s))) of
        [] \<Rightarrow> None
      | c # cs \<Rightarrow>
          if c = 45 then map_option (\<lambda>n. - int n) (py_number cs)
          else if c = 43 then map_option int (py_number cs)
          else map_option int (py_number (c # cs)))"

definition ascii_python :: python where
  "ascii_python = \<lparr>lower = ascii_lower, strip = ascii_strip, py_int = ascii_int,
              max_str_digits = 4300\<rparr>"

text \<open>Example records and a library holding given records, reading given lines.\<close>

definition dune_a :: Book where
  "dune_a = \<lparr>title = PStr (lit ''Dune''), author = PStr (lit ''A''), year = PInt 1965,
             genre = PStr (lit ''SF''), read = PBool False\<rparr>"

definition dune_b :: Book where
  "dune_b = \<lparr>title = PStr (lit ''Dune''), author = PStr (lit ''B''), year = PInt 1966,
             genre = PStr (lit ''SF''), read = PBool True\<rparr>"

definition emma :: Book where
  "emma = \<lparr>title = PStr (lit ''Emma''), author = PStr (lit ''Jane Austen''), year = PInt 1815,
           genre = PStr (lit ''Novel''), read = PBool True\<rparr>"

text \<open>A record of the declared types whose year has 4301 digits.\<close>

definition over_limit_year :: int where
  "over_limit_year = 10 ^ 4300"

definition dune_late :: Book where
  "dune_late = \<lparr>title = PStr (lit ''Dune''), author = PStr (lit ''C''),
                year = PInt over_limit_year, genre = PStr (lit ''SF''), read = PBool False\<rparr>"

definition library :: "(nat \<times> Book) list \<Rightarrow> pystr list \<Rightarrow> world" where
  "library bs lines =
     \<lparr>books = bs, next_ref = length bs, json_file = None, stdin = lines, stdout = []\<rparr>"


section \<open>Evaluating the examples\<close>

lemma int_str_ok_small: "\<bar>i\<bar> < 10000 \<Longrightarrow> 4 \<le> limit \<Longrightarrow> int_str_ok limit i"
proof -
  assume a: "\<bar>i\<bar> < 10000" "4 \<le> limit"
  have "(10::int) ^ 4 \<le> 10 ^ limit" using a(2) by (intro power_increasing) simp_all
  with a(1) show ?thesis by (simp add: int_str_ok_def)
qed

lemma int_str_ok_power: "0 < limit \<Longrightarrow> \<not> int_str_ok limit (10 ^ limit)"
  by (simp add: int_str_ok_def)

lemma over_limit_year_refused: "int_str_ok 4300 over_limit_year = False"
proof -
  have "(0::nat) < 4300" by simp
  from int_str_ok_power [OF this] show ?thesis unfolding over_limit_year_def by blast
qed

lemmas example_simps = library_def dune_a_def dune_b_def emma_def dune_late_def lit_def
  ascii_python_def ascii_lower_def ascii_strip_def ascii_isspace_def ascii_int_def int_space_def
  py_number_def digit_val_def same_title_def valid_catalog_def well_typed_def storable_def
  str_ok_def print_def then_print_def print_books_def save_library_def serialize_def
  to_dict_def int_str_ok_small over_limit_year_refused

section \<open>Serialization and loading\<close>



lemma map_snd_new_objects: "map snd (new_objects r bs) = bs"
  by (simp add: new_objects_def)

lemma from_dict_PDict:
  "from_dict (PDict d) =
     (case find (\<lambda>k. map_of d k = None) field_names of
        Some k \<Rightarrow> Inl (KeyError k)
      | None \<Rightarrow> Inr (record_of d))"
  by (simp add: from_dict_def field_names_def record_of_def split: option.splits)

lemma from_dict_complete: "has_all_fields d \<Longrightarrow> from_dict (PDict d) = Inr (record_of d)"
  by (auto simp add: from_dict_PDict has_all_fields_def list_all_iff find_None_iff
      split: option.splits)

lemma from_dict_incomplete: "\<not> has_all_fields d \<Longrightarrow> \<exists>k. from_dict (PDict d) = Inl (KeyError k)"
  by (auto simp add: from_dict_PDict has_all_fields_def list_all_iff find_None_iff
      split: option.splits)

lemma from_dict_all_complete:
  "list_all has_all_fields ds \<Longrightarrow> from_dict_all (map PDict ds) = Inr (map record_of ds)"
  by (induction ds) (simp_all add: from_dict_complete)

lemma from_dict_all_incomplete:
  "\<not> list_all has_all_fields ds \<Longrightarrow> \<exists>k. from_dict_all (map PDict ds) = Inl (KeyError k)"
proof (induction ds)
  case Nil
  then show ?case by simp
next
  case (Cons d ds)
  show ?case
  proof (cases "has_all_fields d")
    case False
    then obtain k where "from_dict (PDict d) = Inl (KeyError k)"
      using from_dict_incomplete by blast
    then show ?thesis by simp
  next
    case True
    with Cons.prems have "\<not> list_all has_all_fields ds" by simp
    then obtain k where "from_dict_all (map PDict ds) = Inl (KeyError k)"
      using Cons.IH by blast
    then show ?thesis by (simp add: from_dict_complete [OF True])
  qed
qed






text \<open>
  C9 (as the code has it). For a mapping, \<open>from_dict\<close> fails exactly when one of the
  five keys is absent, with \<open>KeyError\<close> of the first absent key; otherwise it returns
  the record of the five values as they are. No value is checked or coerced.
\<close>

theorem from_dict_mapping:
  "from_dict (PDict d) =
     (if has_all_fields d then Inr (record_of d)
      else Inl (KeyError (the (find (\<lambda>k. map_of d k = None) field_names))))"
proof (cases "has_all_fields d")
  case True
  then show ?thesis by (simp add: from_dict_complete)
next
  case False
  then have "find (\<lambda>k. map_of d k = None) field_names \<noteq> None"
    by (auto simp add: has_all_fields_def list_all_iff find_None_iff)
  then obtain k where "find (\<lambda>k. map_of d k = None) field_names = Some k" by blast
  with False show ?thesis by (simp add: from_dict_PDict)
qed

text \<open>
  C9 as stated fails: a mapping whose \<open>year\<close> is not a number (and whose other values
  have the wrong types too) is deserialized without any error.
\<close>

theorem from_dict_wrong_types:
  "from_dict (PDict [(lit ''title'', PInt 1), (lit ''author'', PNone),
                      (lit ''year'', PStr (lit ''abc'')), (lit ''genre'', PList []),
                      (lit ''read'', PStr (lit ''no''))]) =
     Inr \<lparr>title = PInt 1, author = PNone, year = PStr (lit ''abc''), genre = PList [],
          read = PStr (lit ''no'')\<rparr>"
  by (simp add: from_dict_def lit_def)

text \<open>
  C2 (as the code has it). When the file is missing, when \<open>json.load\<close> rejects its
  text with \<open>JSONDecodeError\<close>, or when \<open>json.load\<close> returns a sequence of mappings,
  \<open>load_library\<close> returns normally; the catalog is the records of the file, in file
  order and with the values as they are, when every mapping has the five keys, and is
  empty otherwise.
\<close>

theorem load_library_mappings:
  assumes "json_file w = None \<or> json_file w = Some NotJSON
           \<or> json_file w = Some (JSON (PList (map PDict ds)))"
  shows "fst (load_library w) = Returned \<and>
         map snd (books (snd (load_library w))) =
           (if json_file w = Some (JSON (PList (map PDict ds))) \<and> list_all has_all_fields ds
            then map record_of ds else [])"
proof -
  consider (missing) "json_file w = None" | (bad) "json_file w = Some NotJSON"
    | (good) "json_file w = Some (JSON (PList (map PDict ds)))" "list_all has_all_fields ds"
    | (incomplete) "json_file w = Some (JSON (PList (map PDict ds)))"
        "\<not> list_all has_all_fields ds"
    using assms by fastforce
  then show ?thesis
  proof cases
    case missing
    then show ?thesis by (simp add: load_library_def)
  next
    case bad
    then show ?thesis by (simp add: load_library_def print_def)
  next
    case good
    then show ?thesis
      by (simp add: load_library_def from_dict_all_complete map_snd_new_objects)
  next
    case incomplete
    then obtain k where "from_dict_all (map PDict ds) = Inl (KeyError k)"
      using from_dict_all_incomplete by blast
    with incomplete show ?thesis by (simp add: load_library_def print_def)
  qed
qed

text \<open>
  The file of the specification's example: one record, without its \<open>year\<close>.
\<close>

theorem load_library_mappings_witness:
  "json_file ((library [] [])\<lparr>json_file := Some (JSON (PList (map PDict
        [[(lit ''title'', PStr (lit ''Dune'')), (lit ''author'', PStr (lit ''A'')),
          (lit ''genre'', PStr (lit ''SF'')), (lit ''read'', PBool False)]])))\<rparr>)
     = Some (JSON (PList (map PDict
        [[(lit ''title'', PStr (lit ''Dune'')), (lit ''author'', PStr (lit ''A'')),
          (lit ''genre'', PStr (lit ''SF'')), (lit ''read'', PBool False)]])))
   \<and> fst (load_library ((library [] [])\<lparr>json_file := Some (JSON (PList (map PDict
        [[(lit ''title'', PStr (lit ''Dune'')), (lit ''author'', PStr (lit ''A'')),
          (lit ''genre'', PStr (lit ''SF'')), (lit ''read'', PBool False)]])))\<rparr>)) = Returned
   \<and> map snd (books (snd (load_library ((library [] [])\<lparr>json_file := Some (JSON (PList (map PDict
        [[(lit ''title'', PStr (lit ''Dune'')), (lit ''author'', PStr (lit ''A'')),
          (lit ''genre'', PStr (lit ''SF'')), (lit ''read'', PBool False)]])))\<rparr>)))) = []"
  using load_library_mappings [of "(library [] [])\<lparr>json_file := Some (JSON (PList (map PDict
        [[(lit ''title'', PStr (lit ''Dune'')), (lit ''author'', PStr (lit ''A'')),
          (lit ''genre'', PStr (lit ''SF'')), (lit ''read'', PBool False)]])))\<rparr>"
      "[[(lit ''title'', PStr (lit ''Dune'')), (lit ''author'', PStr (lit ''A'')),
          (lit ''genre'', PStr (lit ''SF'')), (lit ''read'', PBool False)]]"]
  by (simp add: has_all_fields_def field_names_def library_def lit_def)

text \<open>
  C2 as stated fails. A file holding the number 5 (a top level that is not a
  sequence) makes \<open>load_library\<close> raise \<open>TypeError\<close>, and a file whose bytes are not
  text makes it raise \<open>UnicodeDecodeError\<close>: the handler catches neither. And a record
  whose values have the wrong types is loaded as it is, so the catalog is not empty.
\<close>

theorem load_library_not_total:
  "load_library ((library [] [])\<lparr>json_file := Some (JSON (PInt 5))\<rparr>)
     = (Raised TypeError, (library [] [])\<lparr>json_file := Some (JSON (PInt 5))\<rparr>)
   \<and> load_library ((library [] [])\<lparr>json_file := Some (LoadRaises UnicodeDecodeError)\<rparr>)
     = (Raised UnicodeDecodeError,
        (library [] [])\<lparr>json_file := Some (LoadRaises UnicodeDecodeError)\<rparr>)
   \<and> books (snd (load_library ((library [] [])\<lparr>json_file :=
        Some (JSON (PList [PDict [(lit ''title'', PInt 1), (lit ''author'', PNone),
           (lit ''year'', PStr (lit ''abc'')), (lit ''genre'', PList []),
           (lit ''read'', PStr (lit ''no''))]]))\<rparr>)))
     = [(0, \<lparr>title = PInt 1, author = PNone, year = PStr (lit ''abc''), genre = PList [],
          read = PStr (lit ''no'')\<rparr>)]"
  by (simp add: load_library_def from_dict_def new_objects_def library_def lit_def)

text \<open>
  C10. The three queries leave the catalog and the backing file as they were, whatever
  they read and whether they return or raise.
\<close>

theorem queries_frame:
  "books (snd (search_books P w)) = books w \<and>
   json_file (snd (search_books P w)) = json_file w \<and>
   books (snd (display_all_books P w)) = books w \<and>
   json_file (snd (display_all_books P w)) = json_file w \<and>
   books (snd (display_statistics P w)) = books w \<and>
   json_file (snd (display_statistics P w)) = json_file w"
  by (simp add: search_books_def display_all_books_def display_statistics_def print_def Let_def
      print_books_def print_genres_def split: prod.splits sum.splits list.splits)

section \<open>Adding and removing\<close>










lemma save_library_books: "books (snd (save_library P env w)) = books w"
  by (cases env) (simp_all add: save_library_def print_def)

lemma save_library_stdout: "\<exists>ms. stdout (snd (save_library P env w)) = stdout w @ ms"
  by (cases env) (simp_all add: save_library_def print_def)

lemma save_library_synced:
  "fst (save_library P IoOk w) = Returned \<Longrightarrow>
     json_file (snd (save_library P IoOk w)) = Some (JSON (serialize (books w)))"
  by (simp add: save_library_def split: if_splits)














section \<open>Searching and statistics\<close>













lemma count_genres_error: "count_genres g bs = Inl e \<Longrightarrow> e = TypeError"
  by (induction bs arbitrary: g) (auto split: if_splits)

lemma print_genres_result:
  "fst (print_genres limit items w) \<in> {Returned, Raised ValueError}
   \<and> (\<exists>ms. stdout (snd (print_genres limit items w)) = stdout w @ ms)"
  by (simp add: print_genres_def print_def)

text \<open>
  C7. Statistics on an empty catalog print "no books" and stop before any division;
  \<open>display_statistics\<close> never raises \<open>ZeroDivisionError\<close>; on a catalog that is not
  empty it prints the total and the percentage, the number of read records divided by
  the total, times 100.
\<close>

theorem statistics_guard:
  "(books w = [] \<longrightarrow> display_statistics P w = (Returned, print [NoBooks] w))
   \<and> fst (display_statistics P w) \<noteq> Raised ZeroDivisionError
   \<and> (books w \<noteq> [] \<longrightarrow>
        (\<exists>ms. stdout (snd (display_statistics P w)) =
           stdout w @ TotalBooks (int (length (books w)))
             # PercentageRead
                 (real (length (filter (\<lambda>b. py_bool (read (snd b))) (books w)))
                    / real (length (books w)) * 100)
             # ms))"
proof (intro conjI impI)
  assume "books w = []"
  then show "display_statistics P w = (Returned, print [NoBooks] w)"
    by (simp add: display_statistics_def)
next
  show "fst (display_statistics P w) \<noteq> Raised ZeroDivisionError"
    by (auto simp add: display_statistics_def py_truediv_def Let_def print_genres_def
        split: sum.splits if_splits dest: count_genres_error)
next
  assume "books w \<noteq> []"
  then show "\<exists>ms. stdout (snd (display_statistics P w)) =
           stdout w @ TotalBooks (int (length (books w)))
             # PercentageRead
                 (real (length (filter (\<lambda>b. py_bool (read (snd b))) (books w)))
                    / real (length (books w)) * 100)
             # ms"
    by (simp add: display_statistics_def py_truediv_def Let_def print_def print_genres_def
        split: sum.splits)
qed

text \<open>
  The empty catalog, and the two records titled Dune, one of them read.
\<close>

theorem statistics_guard_witness:
  "books (library [] []) = []
   \<and> display_statistics ascii_python (library [] []) = (Returned, print [NoBooks] (library [] []))
   \<and> books (library [(0, dune_a), (1, dune_b)] []) \<noteq> []
   \<and> stdout (snd (display_statistics ascii_python (library [(0, dune_a), (1, dune_b)] [])))
       = [TotalBooks 2, PercentageRead 50, BooksByGenre [(PStr (lit ''SF''), 2)]]"
  using statistics_guard [of "library [] []" ascii_python]
    statistics_guard [of "library [(0, dune_a), (1, dune_b)] []" ascii_python]
  by (simp add: example_simps display_statistics_def py_truediv_def sorted_by_count_def
      print_genres_def)

section \<open>Genre counts\<close>

























end
